theory Spec2Isabelle
  imports Main
begin

section \<open>The write-it template script\<close>

text \<open>
  A shallow embedding of \<^verbatim>\<open>src/write_it_template.js\<close>: the three click handlers
  \<^verbatim>\<open>writeIt\<close>, \<^verbatim>\<open>startIt\<close>, \<^verbatim>\<open>explainMore\<close>, the helpers \<^verbatim>\<open>_openModal\<close> and
  \<^verbatim>\<open>_callServer\<close>, and \<^verbatim>\<open>closeWriter\<close> and \<^verbatim>\<open>copyContent\<close>.

  \<^item> A JavaScript string is a \<open>string\<close> holding its UTF-8 bytes; the emoji of the
    labels are the byte lists below. The byte \<open>0x0A\<close> occurs in UTF-8 only as the
    newline character, so replacing it bytewise is what the regular expression
    \<^verbatim>\<open>/\n/g\<close> does.
  \<^item> A value that is a string or \<^verbatim>\<open>undefined\<close> (a \<^verbatim>\<open>dataset\<close> entry, a field of the
    parsed response) is a \<open>string option\<close>. The wire contract gives both response
    fields the type string, so a field of the response is a string or \<open>None\<close>, which
    stands for a field that is absent or \<^verbatim>\<open>null\<close>: the script only tests such a field
    for truthiness, and both are falsy.
  \<^item> The page is a record passed through every operation. A node that
    \<^verbatim>\<open>getElementById\<close> or \<^verbatim>\<open>querySelector\<close> does not find is \<open>None\<close>, and writing a
    property of it is the \<^verbatim>\<open>TypeError\<close> branch \<open>NullNode\<close>.
  \<^item> An \<^verbatim>\<open>async\<close> handler is split at its \<^verbatim>\<open>await\<close>: the part that runs at the click
    (\<open>_begin\<close>) and the part that runs when the request has settled
    (\<open>_settle\<close>), which receives the page as it is at that moment and the outcome of
    the request. The settle part writes the body through \<^verbatim>\<open>m.c\<close>, the node that
    \<^verbatim>\<open>_openModal\<close> found at the click, so it writes without a lookup that could fail.
  \<^item> The names \<^verbatim>\<open>_openModal\<close> and \<^verbatim>\<open>_callServer\<close> lose their underscore.
\<close>

subsection \<open>Characters and labels\<close>

definition dq :: char where
  "dq = CHR 0x22"

definition sq :: char where
  "sq = CHR 0x27"

definition newline :: char where
  "newline = CHR 0x0A"

text \<open>U+23F3, U+270D U+FE0F, U+1F680, U+1F50D, U+2705 and U+1F4CB in UTF-8.\<close>

definition hourglass :: string where
  "hourglass = [CHR 0xE2, CHR 0x8F, CHR 0xB3]"

definition writing_hand :: string where
  "writing_hand = [CHR 0xE2, CHR 0x9C, CHR 0x8D, CHR 0xEF, CHR 0xB8, CHR 0x8F]"

definition rocket :: string where
  "rocket = [CHR 0xF0, CHR 0x9F, CHR 0x9A, CHR 0x80]"

definition magnifier :: string where
  "magnifier = [CHR 0xF0, CHR 0x9F, CHR 0x94, CHR 0x8D]"

definition check_mark :: string where
  "check_mark = [CHR 0xE2, CHR 0x9C, CHR 0x85]"

definition clipboard_sign :: string where
  "clipboard_sign = [CHR 0xF0, CHR 0x9F, CHR 0x93, CHR 0x8B]"

subsection \<open>JavaScript operators on a string that may be undefined\<close>

text \<open>\<^verbatim>\<open>a || b\<close>: \<^verbatim>\<open>undefined\<close> and the empty string are falsy.\<close>

definition js_or :: "string option \<Rightarrow> string \<Rightarrow> string" where
  "js_or a b = (case a of None \<Rightarrow> b | Some s \<Rightarrow> if s = [] then b else s)"

text \<open>The test of \<^verbatim>\<open>if (a)\<close>.\<close>

definition truthy :: "string option \<Rightarrow> bool" where
  "truthy a = (case a of None \<Rightarrow> False | Some s \<Rightarrow> s \<noteq> [])"

text \<open>\<^verbatim>\<open>"..." + a\<close> converts \<^verbatim>\<open>undefined\<close> to the text \<^verbatim>\<open>undefined\<close>.\<close>

definition to_str :: "string option \<Rightarrow> string" where
  "to_str a = (case a of None \<Rightarrow> ''undefined'' | Some s \<Rightarrow> s)"

text \<open>\<^verbatim>\<open>text.replace(/\n/g, "<br>")\<close>: a scan that replaces every match.\<close>

fun replace_newlines :: "string \<Rightarrow> string" where
  "replace_newlines [] = []"
| "replace_newlines (c # cs) =
     (if c = newline then ''<br>'' @ replace_newlines cs else c # replace_newlines cs)"

text \<open>
  \<^verbatim>\<open>JSON.stringify\<close> of an object literal whose values are strings or \<^verbatim>\<open>undefined\<close>: a
  key whose value is \<^verbatim>\<open>undefined\<close> is left out. The body is kept as the JSON object that
  the serialised text denotes, keys in order.
\<close>

fun JSON_stringify :: "(string \<times> string option) list \<Rightarrow> (string \<times> string) list" where
  "JSON_stringify [] = []"
| "JSON_stringify ((k, v) # kvs) =
     (case v of None \<Rightarrow> JSON_stringify kvs | Some s \<Rightarrow> (k, s) # JSON_stringify kvs)"

subsection \<open>Data\<close>

text \<open>The three constants at the head of the script, filled in by the template.\<close>

record config =
  SLUG :: string
  CH :: string
  BIGBET :: string

text \<open>The clicked element: its \<^verbatim>\<open>disabled\<close> flag, its label and its \<^verbatim>\<open>data-*\<close> attributes.\<close>

record button =
  disabled :: bool
  textContent :: string
  dataset :: "string \<rightharpoonup> string"

record request =
  url :: string
  http_method :: string
  headers :: "(string \<times> string) list"
  body :: "(string \<times> string) list"

text \<open>The parsed response \<^verbatim>\<open>d\<close>: the fields \<^verbatim>\<open>d.error\<close> and \<^verbatim>\<open>d.content\<close>.\<close>

record response =
  error :: "string option"
  content :: "string option"

text \<open>A caught exception; the handlers read only its \<^verbatim>\<open>message\<close>.\<close>

datatype js_error = JsError (name: string) (message: string)

text \<open>
  How the two awaited promises of \<^verbatim>\<open>_callServer\<close> end: \<^verbatim>\<open>fetch\<close> rejects, \<^verbatim>\<open>r.json()\<close>
  rejects, or the body parses to \<^verbatim>\<open>d\<close>.
\<close>

datatype fetch_outcome =
    FetchRejected js_error
  | JsonRejected js_error
  | Parsed response

text \<open>The \<^verbatim>\<open>TypeError\<close> of writing a property of \<^verbatim>\<open>null\<close>; the argument names the node.\<close>

datatype dom_error = NullNode string

text \<open>
  The page: the variable \<^verbatim>\<open>lastContent\<close>; the class list of \<^verbatim>\<open>#writerOverlay\<close>, the
  \<^verbatim>\<open>textContent\<close> of \<^verbatim>\<open>#wmTitle\<close>, the \<^verbatim>\<open>innerHTML\<close> of \<^verbatim>\<open>#wmContent\<close> and the
  \<^verbatim>\<open>textContent\<close> of the first \<^verbatim>\<open>.wm-btn-copy\<close> (each \<open>None\<close> when the page has no such
  node); the system clipboard; the requests handed to \<^verbatim>\<open>fetch\<close> so far; and the timers
  set and not yet fired, each a delay in milliseconds and the label its callback writes.
\<close>

record page =
  lastContent :: string
  writerOverlay :: "string list option"
  wmTitle :: "string option"
  wmContent :: "string option"
  wm_btn_copy :: "string option"
  clipboard :: string
  fetched :: "request list"
  timers :: "(nat \<times> string) list"

datatype action = Write | Start | Explain

subsection \<open>The class list\<close>

definition classList_add :: "string \<Rightarrow> string list \<Rightarrow> string list" where
  "classList_add c cs = (if c \<in> set cs then cs else cs @ [c])"

definition classList_remove :: "string \<Rightarrow> string list \<Rightarrow> string list" where
  "classList_remove c cs = removeAll c cs"

subsection \<open>closeWriter and copyContent\<close>

definition closeWriter :: "page \<Rightarrow> dom_error option \<times> page" where
  "closeWriter pg =
     (case writerOverlay pg of
        None \<Rightarrow> (Some (NullNode ''writerOverlay''), pg)
      | Some cs \<Rightarrow> (None, pg\<lparr>writerOverlay := Some (classList_remove ''active'' cs)\<rparr>))"

text \<open>
  \<^verbatim>\<open>copyContent\<close> hands the current \<^verbatim>\<open>lastContent\<close> to \<^verbatim>\<open>navigator.clipboard.writeText\<close>.
  When that promise is fulfilled the clipboard holds the text and the \<^verbatim>\<open>then\<close> callback
  runs: it looks the copy button up, writes the confirmation label and sets a timer of
  2000 ms. When the promise is rejected nothing runs.
\<close>

definition copyContent_begin :: "page \<Rightarrow> string" where
  "copyContent_begin pg = lastContent pg"

definition copyContent_settle :: "page \<Rightarrow> string \<Rightarrow> bool \<Rightarrow> dom_error option \<times> page" where
  "copyContent_settle pg text fulfilled =
     (if \<not> fulfilled then (None, pg)
      else let pg1 = pg\<lparr>clipboard := text\<rparr> in
        (case wm_btn_copy pg1 of
           None \<Rightarrow> (Some (NullNode ''.wm-btn-copy''), pg1)
         | Some _ \<Rightarrow>
             (None, pg1\<lparr>wm_btn_copy := Some (check_mark @ '' Copied!''),
                        timers := timers pg1 @ [(2000, clipboard_sign @ '' Copy'')]\<rparr>)))"

text \<open>
  The oldest timer fires: its callback writes the label to the button \<^verbatim>\<open>b\<close> that the
  \<^verbatim>\<open>then\<close> callback found. All timers of the script have the same delay, so they fire
  in the order in which they were set.
\<close>

definition timer_fire :: "page \<Rightarrow> page" where
  "timer_fire pg =
     (case timers pg of
        [] \<Rightarrow> pg
      | (d, l) # ts \<Rightarrow> pg\<lparr>wm_btn_copy := Some l, timers := ts\<rparr>)"

subsection \<open>The modal and the server call\<close>

definition openModal :: "string \<Rightarrow> string \<Rightarrow> page \<Rightarrow> dom_error option \<times> page" where
  "openModal title loadingMsg pg =
     (case wmTitle pg of
        None \<Rightarrow> (Some (NullNode ''wmTitle''), pg)
      | Some _ \<Rightarrow>
          let pg1 = pg\<lparr>wmTitle := Some title\<rparr> in
          (case wmContent pg1 of
             None \<Rightarrow> (Some (NullNode ''wmContent''), pg1)
           | Some _ \<Rightarrow>
               let pg2 = pg1\<lparr>wmContent := Some
                     (''<div class='' @ [dq] @ ''wm-loading'' @ [dq] @ ''><div class='' @ [dq]
                      @ ''spinner'' @ [dq] @ ''></div><div>'' @ loadingMsg @ ''</div></div>'')\<rparr> in
               (case writerOverlay pg2 of
                  None \<Rightarrow> (Some (NullNode ''writerOverlay''), pg2)
                | Some cs \<Rightarrow>
                    (None, pg2\<lparr>writerOverlay := Some (classList_add ''active'' cs)\<rparr>))))"

text \<open>The call of \<^verbatim>\<open>fetch\<close> in \<^verbatim>\<open>_callServer\<close>.\<close>

definition callServer_fetch :: "config \<Rightarrow> (string \<times> string option) list \<Rightarrow> request" where
  "callServer_fetch cfg payload =
     \<lparr>url = ''/api/write/'' @ SLUG cfg,
      http_method = ''POST'',
      headers = [(''Content-Type'', ''application/json'')],
      body = JSON_stringify payload\<rparr>"

text \<open>
  \<^verbatim>\<open>new Error(x)\<close>: the message is the string \<^verbatim>\<open>x\<close>. \<^verbatim>\<open>_callServer\<close> calls it on a
  truthy value only; for \<^verbatim>\<open>undefined\<close> the message is empty.
\<close>

definition new_Error :: "string option \<Rightarrow> js_error" where
  "new_Error x = JsError ''Error'' (case x of None \<Rightarrow> [] | Some s \<Rightarrow> s)"

text \<open>The rest of \<^verbatim>\<open>_callServer\<close>: \<open>Inl\<close> is the exception it ends with.\<close>

definition callServer_settle :: "fetch_outcome \<Rightarrow> js_error + string" where
  "callServer_settle oc =
     (case oc of
        FetchRejected e \<Rightarrow> Inl e
      | JsonRejected e \<Rightarrow> Inl e
      | Parsed d \<Rightarrow>
          if truthy (error d) then Inl (new_Error (error d))
          else Inr (js_or (content d) ''No content generated.''))"

subsection \<open>writeIt\<close>

definition writeIt_begin ::
  "config \<Rightarrow> page \<Rightarrow> button \<Rightarrow> (dom_error + request) \<times> page \<times> button" where
  "writeIt_begin cfg pg btn =
     (let type = dataset btn ''type'';
          topic = dataset btn ''topic'';
          views = js_or (dataset btn ''views'') [];
          btn1 = btn\<lparr>disabled := True, textContent := hourglass @ '' WRITING...''\<rparr>;
          (r, pg1) = openModal (writing_hand @ '' '' @ to_str topic)
                       (''Writing in '' @ CH cfg @ [sq] @ ''s voice...'') pg
      in case r of
           Some e \<Rightarrow> (Inl e, pg1, btn1)
         | None \<Rightarrow>
             let req = callServer_fetch cfg
                   [(''topic'', topic), (''type'', Some ''write''),
                    (''card_type'', type), (''views'', Some views)]
             in (Inr req, pg1\<lparr>fetched := fetched pg1 @ [req]\<rparr>, btn1))"

definition writeIt_settle :: "page \<Rightarrow> button \<Rightarrow> fetch_outcome \<Rightarrow> page \<times> button" where
  "writeIt_settle pg btn oc =
     (let pg1 =
        (case callServer_settle oc of
           Inr text \<Rightarrow>
             pg\<lparr>lastContent := text,
                wmContent := Some (''<div class='' @ [dq] @ ''wm-content'' @ [dq] @ ''>''
                                   @ replace_newlines text @ ''</div>'')\<rparr>
         | Inl e \<Rightarrow>
             pg\<lparr>wmContent := Some (''<div style='' @ [dq] @ ''color:#f87171'' @ [dq]
                                   @ ''>Error: '' @ message e @ ''</div>'')\<rparr>)
      in (pg1, btn\<lparr>disabled := False, textContent := writing_hand @ '' WRITE IT''\<rparr>))"

subsection \<open>startIt\<close>

definition startIt_begin ::
  "config \<Rightarrow> page \<Rightarrow> button \<Rightarrow> (dom_error + request) \<times> page \<times> button" where
  "startIt_begin cfg pg btn =
     (let type = dataset btn ''type'';
          topic = dataset btn ''topic'';
          views = js_or (dataset btn ''views'') [];
          btn1 = btn\<lparr>disabled := True, textContent := hourglass @ '' THINKING...''\<rparr>;
          (r, pg1) = openModal (rocket @ '' Getting You Started: '' @ to_str topic)
                       ''Building your starting framework...'' pg
      in case r of
           Some e \<Rightarrow> (Inl e, pg1, btn1)
         | None \<Rightarrow>
             let req = callServer_fetch cfg
                   [(''topic'', topic), (''type'', Some ''start''),
                    (''card_type'', type), (''views'', Some views)]
             in (Inr req, pg1\<lparr>fetched := fetched pg1 @ [req]\<rparr>, btn1))"

definition startIt_settle :: "page \<Rightarrow> button \<Rightarrow> fetch_outcome \<Rightarrow> page \<times> button" where
  "startIt_settle pg btn oc =
     (let pg1 =
        (case callServer_settle oc of
           Inr text \<Rightarrow>
             pg\<lparr>lastContent := text,
                wmContent := Some (''<div class='' @ [dq] @ ''wm-content'' @ [dq] @ ''>''
                                   @ replace_newlines text @ ''</div>'')\<rparr>
         | Inl e \<Rightarrow>
             pg\<lparr>wmContent := Some (''<div style='' @ [dq] @ ''color:#f87171'' @ [dq]
                                   @ ''>Error: '' @ message e @ ''</div>'')\<rparr>)
      in (pg1, btn\<lparr>disabled := False, textContent := rocket @ '' START IT''\<rparr>))"

subsection \<open>explainMore\<close>

definition explainMore_begin ::
  "config \<Rightarrow> page \<Rightarrow> button \<Rightarrow> (dom_error + request) \<times> page \<times> button" where
  "explainMore_begin cfg pg btn =
     (let topic = dataset btn ''topic'';
          bigbet = js_or (dataset btn ''bigbet'') (BIGBET cfg);
          label = js_or (dataset btn ''label'') [];
          btn1 = btn\<lparr>disabled := True, textContent := hourglass @ '' ANALYZING...''\<rparr>;
          (r, pg1) = openModal (magnifier @ '' Deep Dive: '' @ label)
                       ''Building deep explanation...'' pg
      in case r of
           Some e \<Rightarrow> (Inl e, pg1, btn1)
         | None \<Rightarrow>
             let req = callServer_fetch cfg
                   [(''topic'', topic), (''type'', Some ''explain''),
                    (''big_bet'', Some bigbet), (''label'', Some label)]
             in (Inr req, pg1\<lparr>fetched := fetched pg1 @ [req]\<rparr>, btn1))"

definition explainMore_settle :: "page \<Rightarrow> button \<Rightarrow> fetch_outcome \<Rightarrow> page \<times> button" where
  "explainMore_settle pg btn oc =
     (let pg1 =
        (case callServer_settle oc of
           Inr text \<Rightarrow>
             pg\<lparr>lastContent := text,
                wmContent := Some (''<div class='' @ [dq] @ ''wm-content'' @ [dq] @ ''>''
                                   @ replace_newlines text @ ''</div>'')\<rparr>
         | Inl e \<Rightarrow>
             pg\<lparr>wmContent := Some (''<div style='' @ [dq] @ ''color:#f87171'' @ [dq]
                                   @ ''>Error: '' @ message e @ ''</div>'')\<rparr>)
      in (pg1, btn\<lparr>disabled := False, textContent := magnifier @ '' Explain More''\<rparr>))"

subsection \<open>The three handlers by kind\<close>

fun act_begin ::
  "action \<Rightarrow> config \<Rightarrow> page \<Rightarrow> button \<Rightarrow> (dom_error + request) \<times> page \<times> button" where
  "act_begin Write cfg pg btn = writeIt_begin cfg pg btn"
| "act_begin Start cfg pg btn = startIt_begin cfg pg btn"
| "act_begin Explain cfg pg btn = explainMore_begin cfg pg btn"

fun act_settle :: "action \<Rightarrow> page \<Rightarrow> button \<Rightarrow> fetch_outcome \<Rightarrow> page \<times> button" where
  "act_settle Write pg btn oc = writeIt_settle pg btn oc"
| "act_settle Start pg btn oc = startIt_settle pg btn oc"
| "act_settle Explain pg btn oc = explainMore_settle pg btn oc"

subsection \<open>Sample inputs\<close>

text \<open>
  A configuration, a page whose modal is closed, and three buttons: the write button and
  the explain button of the scenarios, and a button labelled \<^verbatim>\<open>Go\<close> that carries a
  topic only.
\<close>

definition config0 :: config where
  "config0 = \<lparr>SLUG = ''demo'', CH = ''Ada'', BIGBET = ''Go deep''\<rparr>"

definition page0 :: page where
  "page0 = \<lparr>lastContent = ''old'', writerOverlay = Some [''writer-overlay''],
            wmTitle = Some [], wmContent = Some [],
            wm_btn_copy = Some ''Copy text'', clipboard = [],
            fetched = [], timers = []\<rparr>"

definition launch_btn :: button where
  "launch_btn = \<lparr>disabled = False, textContent = writing_hand @ '' WRITE IT'',
                 dataset = [''topic'' \<mapsto> ''Launch Plan'', ''type'' \<mapsto> ''idea'']\<rparr>"

definition pricing_btn :: button where
  "pricing_btn = \<lparr>disabled = False, textContent = magnifier @ '' Explain More'',
                  dataset = [''topic'' \<mapsto> ''Pricing'', ''label'' \<mapsto> ''Why it works'']\<rparr>"

definition go_btn :: button where
  "go_btn = \<lparr>disabled = False, textContent = ''Go'', dataset = [''topic'' \<mapsto> ''T'']\<rparr>"

section \<open>Properties\<close>

subsection \<open>Shared facts\<close>

lemma replace_newlines_concat:
  "replace_newlines s = concat (map (\<lambda>c. if c = newline then ''<br>'' else [c]) s)"
  by (induction s) simp_all

text \<open>The three settle functions differ in the idle label only.\<close>

lemma act_settle_eq:
  "act_settle k pg btn oc =
     ((case callServer_settle oc of
         Inr text \<Rightarrow>
           pg\<lparr>lastContent := text,
              wmContent := Some (''<div class='' @ [dq] @ ''wm-content'' @ [dq] @ ''>''
                                 @ replace_newlines text @ ''</div>'')\<rparr>
       | Inl e \<Rightarrow>
           pg\<lparr>wmContent := Some (''<div style='' @ [dq] @ ''color:#f87171'' @ [dq]
                                 @ ''>Error: '' @ message e @ ''</div>'')\<rparr>),
      btn\<lparr>disabled := False,
          textContent := (case k of Write \<Rightarrow> writing_hand @ '' WRITE IT''
                          | Start \<Rightarrow> rocket @ '' START IT''
                          | Explain \<Rightarrow> magnifier @ '' Explain More'')\<rparr>)"
  by (cases k) (simp_all add: writeIt_settle_def startIt_settle_def explainMore_settle_def)

lemma callServer_content:
  "\<not> truthy (error d) \<Longrightarrow> content d = Some X \<Longrightarrow> X \<noteq> [] \<Longrightarrow>
   callServer_settle (Parsed d) = Inr X"
  by (simp add: callServer_settle_def js_or_def)

lemma callServer_error:
  "E \<noteq> [] \<Longrightarrow>
   callServer_settle (Parsed \<lparr>error = Some E, content = c\<rparr>) = Inl (JsError ''Error'' E)"
  by (simp add: callServer_settle_def truthy_def new_Error_def)

lemma callServer_fallback:
  "\<not> truthy (error d) \<Longrightarrow> content d = None \<or> content d = Some [] \<Longrightarrow>
   callServer_settle (Parsed d) = Inr ''No content generated.''"
  by (auto simp add: callServer_settle_def js_or_def)

text \<open>What a click does to the button does not depend on the page.\<close>

lemma act_begin_button:
  "snd (snd (act_begin k cfg pg btn)) =
     btn\<lparr>disabled := True,
         textContent := hourglass @ (case k of Write \<Rightarrow> '' WRITING...''
                                      | Start \<Rightarrow> '' THINKING...''
                                      | Explain \<Rightarrow> '' ANALYZING...'')\<rparr>"
  by (cases k)
     (simp_all add: writeIt_begin_def startIt_begin_def explainMore_begin_def Let_def
        split: prod.split option.split)

text \<open>
  When the timers fire in turn, the last one set writes the label that stays, and none
  is left.
\<close>

lemma timer_fire_all:
  "timers pg = ts @ [(d, l)] \<Longrightarrow>
   (timer_fire ^^ Suc (length ts)) pg = pg\<lparr>wm_btn_copy := Some l, timers := []\<rparr>"
proof (induction ts arbitrary: pg)
  case Nil
  then show ?case
    by (simp add: timer_fire_def)
next
  case (Cons t ts)
  obtain d' l' where t: "t = (d', l')"
    by (cases t)
  let ?q = "pg\<lparr>wm_btn_copy := Some l', timers := ts @ [(d, l)]\<rparr>"
  have fire: "timer_fire pg = ?q"
    using Cons.prems t by (simp add: timer_fire_def)
  have "(timer_fire ^^ Suc (length (t # ts))) pg = (timer_fire ^^ Suc (length ts)) (timer_fire pg)"
    by (simp add: funpow_swap1)
  also have "\<dots> = ?q\<lparr>wm_btn_copy := Some l, timers := []\<rparr>"
    using Cons.IH [of ?q] fire by simp
  finally show ?case
    by simp
qed

text \<open>
  A rejected clipboard write changes nothing; on a page without a copy button a fulfilled
  write changes the clipboard only, and the callback ends in a \<^verbatim>\<open>TypeError\<close>.
\<close>

lemma copyContent_rejected:
  "copyContent_settle pg text False = (None, pg)"
  by (simp add: copyContent_settle_def)

lemma copyContent_no_button:
  "wm_btn_copy pg = None \<Longrightarrow>
   copyContent_settle pg text True =
     (Some (NullNode ''.wm-btn-copy''), pg\<lparr>clipboard := text\<rparr>)"
  by (simp add: copyContent_settle_def)

subsection \<open>Rendering a successful response\<close>

text \<open>
  C1. For each of the three kinds: when the response parses, its content is a non-empty
  string \<open>X\<close> and its error field is not truthy, the handler sets the modal body to the
  content container around \<open>X\<close> with every newline character replaced by \<^verbatim>\<open><br>\<close>, and
  sets \<^verbatim>\<open>lastContent\<close> to \<open>X\<close> itself. This holds for any page the request settles on.
\<close>

theorem success_renders_content:
  assumes "content d = Some X" and "X \<noteq> []" and "\<not> truthy (error d)"
  shows "wmContent (fst (act_settle k pg btn (Parsed d))) =
           Some (''<div class='' @ [dq] @ ''wm-content'' @ [dq] @ ''>''
                 @ concat (map (\<lambda>c. if c = newline then ''<br>'' else [c]) X) @ ''</div>'')
         \<and> lastContent (fst (act_settle k pg btn (Parsed d))) = X"
  using assms by (simp add: act_settle_eq callServer_content replace_newlines_concat)

text \<open>The scenario of the write button: two steps on two lines.\<close>

theorem success_renders_content_witness:
  "wmContent (fst (act_settle Write page0 launch_btn
       (Parsed \<lparr>error = None, content = Some (''Step 1...'' @ [newline] @ ''Step 2...'')\<rparr>))) =
     Some (''<div class='' @ [dq] @ ''wm-content'' @ [dq] @ ''>Step 1...<br>Step 2...</div>'')
   \<and> lastContent (fst (act_settle Write page0 launch_btn
       (Parsed \<lparr>error = None, content = Some (''Step 1...'' @ [newline] @ ''Step 2...'')\<rparr>))) =
     ''Step 1...'' @ [newline] @ ''Step 2...''"
  using success_renders_content
    [of "\<lparr>error = None, content = Some (''Step 1...'' @ [newline] @ ''Step 2...'')\<rparr>"
        "''Step 1...'' @ [newline] @ ''Step 2...''" Write page0 launch_btn]
  by (simp add: truthy_def newline_def)

subsection \<open>Rendering a failure\<close>

text \<open>
  C2. For each of the three kinds: when the parsed response carries a non-empty error
  string \<open>E\<close>, the modal body becomes the error-styled element with the text
  \<^verbatim>\<open>Error: E\<close>, and \<^verbatim>\<open>lastContent\<close> keeps the value it had.
\<close>

theorem error_field_rendered:
  assumes "error d = Some E" and "E \<noteq> []"
  shows "wmContent (fst (act_settle k pg btn (Parsed d))) =
           Some (''<div style='' @ [dq] @ ''color:#f87171'' @ [dq] @ ''>Error: '' @ E @ ''</div>'')
         \<and> lastContent (fst (act_settle k pg btn (Parsed d))) = lastContent pg"
proof -
  have "d = \<lparr>error = Some E, content = content d\<rparr>"
    using assms(1) by simp
  then have "callServer_settle (Parsed d) = Inl (JsError ''Error'' E)"
    using callServer_error [OF assms(2), of "content d"] by simp
  then show ?thesis
    by (simp add: act_settle_eq)
qed

text \<open>The scenario of the explain button: the server answers \<^verbatim>\<open>rate limited\<close>.\<close>

theorem error_field_rendered_witness:
  "wmContent (fst (act_settle Explain page0 pricing_btn
       (Parsed \<lparr>error = Some ''rate limited'', content = None\<rparr>))) =
     Some (''<div style='' @ [dq] @ ''color:#f87171'' @ [dq] @ ''>Error: rate limited</div>'')
   \<and> lastContent (fst (act_settle Explain page0 pricing_btn
       (Parsed \<lparr>error = Some ''rate limited'', content = None\<rparr>))) = ''old''"
  using error_field_rendered
    [of "\<lparr>error = Some ''rate limited'', content = None\<rparr>" "''rate limited''"
        Explain page0 pricing_btn]
  by (simp add: page0_def)

text \<open>
  C4, as the claim states it, fails: a response whose error field is present but empty,
  next to a content \<^verbatim>\<open>X\<close>, is a success, and the modal shows the content.
\<close>

theorem empty_error_counterexample:
  "wmContent (fst (act_settle Write page0 launch_btn
       (Parsed \<lparr>error = Some [], content = Some ''X''\<rparr>))) =
     Some (''<div class='' @ [dq] @ ''wm-content'' @ [dq] @ ''>X</div>'')"
  by (simp add: act_settle_eq callServer_settle_def truthy_def js_or_def newline_def)

text \<open>
  C4, amended. For every response whose error field is a non-empty string \<open>E\<close>, whatever
  its content field \<open>c\<close> holds: \<^verbatim>\<open>_callServer\<close> throws an error with the message \<open>E\<close>, and
  the handler leaves the page as it was except for the modal body, which shows the error
  and nothing of the content.
\<close>

theorem truthy_error_precedes_content:
  assumes "E \<noteq> []"
  shows "callServer_settle (Parsed \<lparr>error = Some E, content = c\<rparr>) = Inl (JsError ''Error'' E)
         \<and> fst (act_settle k pg btn (Parsed \<lparr>error = Some E, content = c\<rparr>)) =
             pg\<lparr>wmContent := Some (''<div style='' @ [dq] @ ''color:#f87171'' @ [dq]
                                     @ ''>Error: '' @ E @ ''</div>'')\<rparr>"
  using assms by (simp add: act_settle_eq callServer_error)

theorem truthy_error_precedes_content_witness:
  "callServer_settle (Parsed \<lparr>error = Some ''rate limited'', content = Some ''X''\<rparr>) =
     Inl (JsError ''Error'' ''rate limited'')
   \<and> fst (act_settle Write page0 launch_btn
         (Parsed \<lparr>error = Some ''rate limited'', content = Some ''X''\<rparr>)) =
       page0\<lparr>wmContent := Some (''<div style='' @ [dq] @ ''color:#f87171'' @ [dq]
                                  @ ''>Error: rate limited</div>'')\<rparr>"
  using truthy_error_precedes_content [of "''rate limited''" "Some ''X''" Write page0 launch_btn]
  by simp

text \<open>
  C7. A rejected \<^verbatim>\<open>fetch\<close>, a rejected \<^verbatim>\<open>r.json()\<close> and a parsed response with a
  non-empty error field, all with the message \<open>m\<close>, leave the page and the button in
  one and the same state, whatever the name of the exception: the modal body is the
  error-styled element with \<^verbatim>\<open>Error: m\<close>. No outcome of a request makes the handler
  send another one: the list of requests handed to \<^verbatim>\<open>fetch\<close> is as it was.
\<close>

theorem failures_share_one_path:
  "act_settle k pg btn (FetchRejected (JsError n1 m)) =
     (pg\<lparr>wmContent := Some (''<div style='' @ [dq] @ ''color:#f87171'' @ [dq]
                             @ ''>Error: '' @ m @ ''</div>'')\<rparr>,
      btn\<lparr>disabled := False,
          textContent := (case k of Write \<Rightarrow> writing_hand @ '' WRITE IT''
                          | Start \<Rightarrow> rocket @ '' START IT''
                          | Explain \<Rightarrow> magnifier @ '' Explain More'')\<rparr>)
   \<and> act_settle k pg btn (JsonRejected (JsError n2 m)) =
       act_settle k pg btn (FetchRejected (JsError n1 m))
   \<and> (m \<noteq> [] \<longrightarrow>
        act_settle k pg btn (Parsed \<lparr>error = Some m, content = c\<rparr>) =
        act_settle k pg btn (FetchRejected (JsError n1 m)))
   \<and> fetched (fst (act_settle k pg btn oc)) = fetched pg"
  by (simp add: act_settle_eq callServer_error)
     (simp add: callServer_settle_def split: sum.split)

theorem failures_share_one_path_witness:
  "act_settle Write page0 launch_btn (FetchRejected (JsError ''TypeError'' ''boom'')) =
     (page0\<lparr>wmContent := Some (''<div style='' @ [dq] @ ''color:#f87171'' @ [dq]
                                @ ''>Error: boom</div>'')\<rparr>,
      launch_btn\<lparr>disabled := False, textContent := writing_hand @ '' WRITE IT''\<rparr>)
   \<and> act_settle Write page0 launch_btn (JsonRejected (JsError ''SyntaxError'' ''boom'')) =
       act_settle Write page0 launch_btn (FetchRejected (JsError ''TypeError'' ''boom''))
   \<and> act_settle Write page0 launch_btn (Parsed \<lparr>error = Some ''boom'', content = None\<rparr>) =
       act_settle Write page0 launch_btn (FetchRejected (JsError ''TypeError'' ''boom''))
   \<and> fetched (fst (act_settle Write page0 launch_btn
         (Parsed \<lparr>error = Some ''boom'', content = None\<rparr>))) = []"
  using failures_share_one_path
    [of Write page0 launch_btn "''TypeError''" "''boom''" "''SyntaxError''" None
        "Parsed \<lparr>error = Some ''boom'', content = None\<rparr>"]
  by (simp add: page0_def)

subsection \<open>The fallback text\<close>

text \<open>
  C6. For each of the three kinds: when the parsed response has neither a content field
  nor an error field, the modal body is the content container around the text
  \<^verbatim>\<open>No content generated.\<close>
\<close>

theorem fallback_when_both_absent:
  assumes "error d = None" and "content d = None"
  shows "wmContent (fst (act_settle k pg btn (Parsed d))) =
           Some (''<div class='' @ [dq] @ ''wm-content'' @ [dq] @ ''>No content generated.</div>'')"
  using assms
  by (simp add: act_settle_eq callServer_fallback truthy_def newline_def)

theorem fallback_when_both_absent_witness:
  "wmContent (fst (act_settle Start page0 launch_btn (Parsed \<lparr>error = None, content = None\<rparr>))) =
     Some (''<div class='' @ [dq] @ ''wm-content'' @ [dq] @ ''>No content generated.</div>'')"
  using fallback_when_both_absent [of "\<lparr>error = None, content = None\<rparr>" Start page0 launch_btn]
  by simp

text \<open>
  C10. When the content field is present and is the empty string, and the error field is
  not truthy, \<^verbatim>\<open>_callServer\<close> returns normally with the text \<^verbatim>\<open>No content generated.\<close>;
  that text, not the empty string, is stored in \<^verbatim>\<open>lastContent\<close> and shown in the modal.
\<close>

theorem empty_content_falls_back:
  assumes "content d = Some []" and "\<not> truthy (error d)"
  shows "callServer_settle (Parsed d) = Inr ''No content generated.''
         \<and> lastContent (fst (act_settle k pg btn (Parsed d))) = ''No content generated.''
         \<and> wmContent (fst (act_settle k pg btn (Parsed d))) =
             Some (''<div class='' @ [dq] @ ''wm-content'' @ [dq]
                   @ ''>No content generated.</div>'')"
  using assms
  by (simp add: act_settle_eq callServer_fallback newline_def)

theorem empty_content_falls_back_witness:
  "callServer_settle (Parsed \<lparr>error = Some [], content = Some []\<rparr>) = Inr ''No content generated.''
   \<and> lastContent (fst (act_settle Write page0 launch_btn
         (Parsed \<lparr>error = Some [], content = Some []\<rparr>))) = ''No content generated.''
   \<and> wmContent (fst (act_settle Write page0 launch_btn
         (Parsed \<lparr>error = Some [], content = Some []\<rparr>))) =
       Some (''<div class='' @ [dq] @ ''wm-content'' @ [dq] @ ''>No content generated.</div>'')"
  using empty_content_falls_back
    [of "\<lparr>error = Some [], content = Some []\<rparr>" Write page0 launch_btn]
  by (simp add: truthy_def)

subsection \<open>The button\<close>

text \<open>
  C3, as the claim states it, fails: the handler does not keep the label the element had.
  A button labelled \<^verbatim>\<open>Go\<close> that is clicked, and whose request succeeds, ends with the
  label of the write button.
\<close>

theorem label_not_restored_counterexample:
  "textContent (snd (act_settle Write (fst (snd (act_begin Write config0 page0 go_btn)))
       (snd (snd (act_begin Write config0 page0 go_btn)))
       (Parsed \<lparr>error = None, content = Some ''ok''\<rparr>))) = writing_hand @ '' WRITE IT''
   \<and> textContent go_btn = ''Go''
   \<and> writing_hand @ '' WRITE IT'' \<noteq> ''Go''"
  by (simp add: act_settle_eq go_btn_def writing_hand_def)

text \<open>
  C3, amended. For each of the three kinds and every element: the click disables the
  element and gives it the busy label of the kind, whatever the page holds; and when the
  request has settled, on any page, with the element in any state and for every outcome
  (success or one of the three failures), the handler enables the element and gives it
  the fixed idle label of the kind. That is the label the element had before the click
  whenever it had the idle label of the kind then.
\<close>

theorem button_busy_then_idle:
  "disabled (snd (snd (act_begin k cfg pg btn)))
   \<and> textContent (snd (snd (act_begin k cfg pg btn))) =
       hourglass @ (case k of Write \<Rightarrow> '' WRITING...''
                    | Start \<Rightarrow> '' THINKING...''
                    | Explain \<Rightarrow> '' ANALYZING...'')
   \<and> \<not> disabled (snd (act_settle k pg' btn' oc))
   \<and> textContent (snd (act_settle k pg' btn' oc)) =
       (case k of Write \<Rightarrow> writing_hand @ '' WRITE IT''
        | Start \<Rightarrow> rocket @ '' START IT''
        | Explain \<Rightarrow> magnifier @ '' Explain More'')
   \<and> (textContent btn =
         (case k of Write \<Rightarrow> writing_hand @ '' WRITE IT''
          | Start \<Rightarrow> rocket @ '' START IT''
          | Explain \<Rightarrow> magnifier @ '' Explain More'')
        \<longrightarrow> textContent (snd (act_settle k pg' btn' oc)) = textContent btn)"
  by (simp add: act_begin_button act_settle_eq)

text \<open>The write button of the scenario, whose request is rejected.\<close>

theorem button_busy_then_idle_witness:
  "disabled (snd (snd (act_begin Write config0 page0 launch_btn)))
   \<and> textContent (snd (snd (act_begin Write config0 page0 launch_btn))) = hourglass @ '' WRITING...''
   \<and> \<not> disabled (snd (act_settle Write (fst (snd (act_begin Write config0 page0 launch_btn)))
          (snd (snd (act_begin Write config0 page0 launch_btn)))
          (FetchRejected (JsError ''TypeError'' ''Failed to fetch''))))
   \<and> textContent (snd (act_settle Write (fst (snd (act_begin Write config0 page0 launch_btn)))
          (snd (snd (act_begin Write config0 page0 launch_btn)))
          (FetchRejected (JsError ''TypeError'' ''Failed to fetch'')))) = textContent launch_btn"
  using button_busy_then_idle
    [of Write config0 page0 launch_btn "fst (snd (act_begin Write config0 page0 launch_btn))"
        "snd (snd (act_begin Write config0 page0 launch_btn))"
        "FetchRejected (JsError ''TypeError'' ''Failed to fetch'')"]
  by (simp add: launch_btn_def)

subsection \<open>The request\<close>

text \<open>
  C5, as the claim states it, fails: an element that carries a topic and no card type
  sends a body without the field \<^verbatim>\<open>card_type\<close>.
\<close>

theorem missing_card_type_counterexample:
  "fst (act_begin Write config0 page0 go_btn) =
     Inr \<lparr>url = ''/api/write/demo'', http_method = ''POST'',
          headers = [(''Content-Type'', ''application/json'')],
          body = [(''topic'', ''T''), (''type'', ''write''), (''views'', [])]\<rparr>"
  by (simp add: writeIt_begin_def openModal_def callServer_fetch_def js_or_def Let_def
        config0_def page0_def go_btn_def)

text \<open>
  C5, amended. On a page that has the three nodes of the modal, a click on an element
  that carries a topic \<open>t\<close> (and, for write and start, a card type \<open>ct\<close>) hands
  \<^verbatim>\<open>fetch\<close> a request whose body has exactly these fields: for write and start
  \<^verbatim>\<open>topic\<close>, \<^verbatim>\<open>type\<close>, \<^verbatim>\<open>card_type\<close> and \<^verbatim>\<open>views\<close>, where \<^verbatim>\<open>views\<close> is the empty
  string when the element has none; for explain \<^verbatim>\<open>topic\<close>, \<^verbatim>\<open>type\<close>, \<^verbatim>\<open>big_bet\<close> and
  \<^verbatim>\<open>label\<close>, where \<^verbatim>\<open>big_bet\<close> is the constant \<^verbatim>\<open>BIGBET\<close> when the element has no
  big-bet attribute or an empty one, and \<^verbatim>\<open>label\<close> is the empty string when the element
  has none.
\<close>

theorem request_body_fields:
  assumes "wmTitle pg = Some a" and "wmContent pg = Some b" and "writerOverlay pg = Some cs"
    and "dataset btn ''topic'' = Some t"
    and "k = Explain \<or> dataset btn ''type'' = Some ct"
  shows "fst (act_begin k cfg pg btn) =
     Inr \<lparr>url = ''/api/write/'' @ SLUG cfg, http_method = ''POST'',
          headers = [(''Content-Type'', ''application/json'')],
          body =
            (case k of
               Write \<Rightarrow>
                 [(''topic'', t), (''type'', ''write''), (''card_type'', ct),
                  (''views'', case dataset btn ''views'' of None \<Rightarrow> [] | Some v \<Rightarrow> v)]
             | Start \<Rightarrow>
                 [(''topic'', t), (''type'', ''start''), (''card_type'', ct),
                  (''views'', case dataset btn ''views'' of None \<Rightarrow> [] | Some v \<Rightarrow> v)]
             | Explain \<Rightarrow>
                 [(''topic'', t), (''type'', ''explain''),
                  (''big_bet'', case dataset btn ''bigbet'' of None \<Rightarrow> BIGBET cfg
                                | Some g \<Rightarrow> if g = [] then BIGBET cfg else g),
                  (''label'', case dataset btn ''label'' of None \<Rightarrow> [] | Some l \<Rightarrow> l)])\<rparr>"
proof (cases k)
  case Write
  then show ?thesis
    using assms
    by (simp add: writeIt_begin_def openModal_def callServer_fetch_def js_or_def Let_def
          split: option.split)
next
  case Start
  then show ?thesis
    using assms
    by (simp add: startIt_begin_def openModal_def callServer_fetch_def js_or_def Let_def
          split: option.split)
next
  case Explain
  then show ?thesis
    using assms
    by (simp add: explainMore_begin_def openModal_def callServer_fetch_def js_or_def Let_def
          split: option.split)
qed

text \<open>The two scenarios: the write button and the explain button.\<close>

theorem request_body_fields_witness:
  "fst (act_begin Write config0 page0 launch_btn) =
     Inr \<lparr>url = ''/api/write/demo'', http_method = ''POST'',
          headers = [(''Content-Type'', ''application/json'')],
          body = [(''topic'', ''Launch Plan''), (''type'', ''write''),
                  (''card_type'', ''idea''), (''views'', [])]\<rparr>
   \<and> fst (act_begin Explain config0 page0 pricing_btn) =
     Inr \<lparr>url = ''/api/write/demo'', http_method = ''POST'',
          headers = [(''Content-Type'', ''application/json'')],
          body = [(''topic'', ''Pricing''), (''type'', ''explain''),
                  (''big_bet'', ''Go deep''), (''label'', ''Why it works'')]\<rparr>"
  using request_body_fields
    [of page0 "[]" "[]" "[''writer-overlay'']" launch_btn "''Launch Plan''" Write "''idea''" config0]
    request_body_fields
    [of page0 "[]" "[]" "[''writer-overlay'']" pricing_btn "''Pricing''" Explain "[]" config0]
  by (simp add: page0_def launch_btn_def pricing_btn_def config0_def)

subsection \<open>Copying and closing\<close>

text \<open>
  C8, as the claim states it, fails: the timer does not write the text the copy button
  had. A copy button labelled \<^verbatim>\<open>Copy text\<close> ends with the fixed label.
\<close>

theorem copy_label_not_restored_counterexample:
  "wm_btn_copy (timer_fire (snd (copyContent_settle
       (fst (act_settle Write page0 launch_btn (Parsed \<lparr>error = None, content = Some ''X''\<rparr>)))
       (copyContent_begin
          (fst (act_settle Write page0 launch_btn (Parsed \<lparr>error = None, content = Some ''X''\<rparr>))))
       True))) = Some (clipboard_sign @ '' Copy'')
   \<and> wm_btn_copy page0 = Some ''Copy text''
   \<and> clipboard_sign @ '' Copy'' \<noteq> ''Copy text''"
  by (simp add: act_settle_eq callServer_settle_def truthy_def js_or_def copyContent_settle_def
        copyContent_begin_def timer_fire_def page0_def clipboard_sign_def)

text \<open>
  C8, amended. Let a successful action have stored the text \<open>X\<close>, and let
  \<^verbatim>\<open>copyContent\<close> be called on any page \<open>pg\<close> where \<^verbatim>\<open>lastContent\<close> holds \<open>X\<close>: it
  hands exactly \<open>X\<close> to the clipboard write. When that write is fulfilled, on any page
  \<open>pg1\<close> that has a copy button, whatever timers are pending there: the clipboard holds
  \<open>X\<close>, the copy button shows the confirmation label, and a timer of 2000 ms is queued
  behind the pending ones. Once the pending timers and then this one have fired, the
  button shows the fixed label of the copy button and no timer is left; that label is
  the text the button had when the write was fulfilled whenever it had the fixed label
  then.
\<close>

theorem copy_writes_last_content:
  assumes "callServer_settle oc = Inr X"
    and "lastContent pg = X"
    and "wm_btn_copy pg1 = Some l"
  shows "lastContent (fst (act_settle k pg0 btn oc)) = X
         \<and> copyContent_begin pg = X
         \<and> fst (copyContent_settle pg1 (copyContent_begin pg) True) = None
         \<and> clipboard (snd (copyContent_settle pg1 (copyContent_begin pg) True)) = X
         \<and> wm_btn_copy (snd (copyContent_settle pg1 (copyContent_begin pg) True)) =
             Some (check_mark @ '' Copied!'')
         \<and> timers (snd (copyContent_settle pg1 (copyContent_begin pg) True)) =
             timers pg1 @ [(2000, clipboard_sign @ '' Copy'')]
         \<and> wm_btn_copy ((timer_fire ^^ Suc (length (timers pg1)))
               (snd (copyContent_settle pg1 (copyContent_begin pg) True))) =
             Some (clipboard_sign @ '' Copy'')
         \<and> timers ((timer_fire ^^ Suc (length (timers pg1)))
               (snd (copyContent_settle pg1 (copyContent_begin pg) True))) = []
         \<and> (l = clipboard_sign @ '' Copy'' \<longrightarrow>
              wm_btn_copy ((timer_fire ^^ Suc (length (timers pg1)))
                (snd (copyContent_settle pg1 (copyContent_begin pg) True))) = wm_btn_copy pg1)"
proof -
  let ?s = "snd (copyContent_settle pg1 (copyContent_begin pg) True)"
  have stored: "lastContent (fst (act_settle k pg0 btn oc)) = X"
    using assms(1) by (simp add: act_settle_eq)
  have handed: "copyContent_begin pg = X"
    using assms(2) by (simp add: copyContent_begin_def)
  have settled: "copyContent_settle pg1 X True =
      (None, pg1\<lparr>clipboard := X, wm_btn_copy := Some (check_mark @ '' Copied!''),
                 timers := timers pg1 @ [(2000, clipboard_sign @ '' Copy'')]\<rparr>)"
    using assms(3) by (simp add: copyContent_settle_def)
  have pending: "timers ?s = timers pg1 @ [(2000, clipboard_sign @ '' Copy'')]"
    using handed settled by simp
  have fired: "(timer_fire ^^ Suc (length (timers pg1))) ?s =
      ?s\<lparr>wm_btn_copy := Some (clipboard_sign @ '' Copy''), timers := []\<rparr>"
    by (rule timer_fire_all [OF pending])
  have label: "wm_btn_copy ((timer_fire ^^ Suc (length (timers pg1))) ?s) =
      Some (clipboard_sign @ '' Copy'')"
    by (subst fired) simp
  have none_left: "timers ((timer_fire ^^ Suc (length (timers pg1))) ?s) = []"
    by (subst fired) simp
  show ?thesis
    using stored handed settled assms(3) label none_left
    by (simp del: funpow.simps)
qed

text \<open>
  A first copy on a page whose copy button carries the fixed label, and a second copy
  made while the timer of an earlier one is still pending.
\<close>

theorem copy_writes_last_content_witness:
  "copyContent_begin (fst (act_settle Write page0 launch_btn
       (Parsed \<lparr>error = None, content = Some ''X''\<rparr>))) = ''X''
   \<and> clipboard (snd (copyContent_settle
        (page0\<lparr>wm_btn_copy := Some (clipboard_sign @ '' Copy'')\<rparr>)
        (copyContent_begin (fst (act_settle Write page0 launch_btn
           (Parsed \<lparr>error = None, content = Some ''X''\<rparr>)))) True)) = ''X''
   \<and> wm_btn_copy ((timer_fire ^^ Suc (length (timers
            (page0\<lparr>wm_btn_copy := Some (clipboard_sign @ '' Copy'')\<rparr>))))
        (snd (copyContent_settle
           (page0\<lparr>wm_btn_copy := Some (clipboard_sign @ '' Copy'')\<rparr>)
           (copyContent_begin (fst (act_settle Write page0 launch_btn
              (Parsed \<lparr>error = None, content = Some ''X''\<rparr>)))) True))) =
       wm_btn_copy (page0\<lparr>wm_btn_copy := Some (clipboard_sign @ '' Copy'')\<rparr>)
   \<and> timers (snd (copyContent_settle
        (page0\<lparr>wm_btn_copy := Some (check_mark @ '' Copied!''),
               timers := [(2000, clipboard_sign @ '' Copy'')]\<rparr>)
        (copyContent_begin (fst (act_settle Write page0 launch_btn
           (Parsed \<lparr>error = None, content = Some ''X''\<rparr>)))) True)) =
       [(2000, clipboard_sign @ '' Copy''), (2000, clipboard_sign @ '' Copy'')]
   \<and> wm_btn_copy ((timer_fire ^^ Suc (length (timers
            (page0\<lparr>wm_btn_copy := Some (check_mark @ '' Copied!''),
                   timers := [(2000, clipboard_sign @ '' Copy'')]\<rparr>))))
        (snd (copyContent_settle
           (page0\<lparr>wm_btn_copy := Some (check_mark @ '' Copied!''),
                  timers := [(2000, clipboard_sign @ '' Copy'')]\<rparr>)
           (copyContent_begin (fst (act_settle Write page0 launch_btn
              (Parsed \<lparr>error = None, content = Some ''X''\<rparr>)))) True))) =
       Some (clipboard_sign @ '' Copy'')"
proof -
  let ?d = "Parsed \<lparr>error = None, content = Some ''X''\<rparr>"
  let ?pg = "fst (act_settle Write page0 launch_btn ?d)"
  let ?fresh = "page0\<lparr>wm_btn_copy := Some (clipboard_sign @ '' Copy'')\<rparr>"
  let ?again = "page0\<lparr>wm_btn_copy := Some (check_mark @ '' Copied!''),
                      timers := [(2000, clipboard_sign @ '' Copy'')]\<rparr>"
  have ok: "callServer_settle ?d = Inr ''X''"
    by (simp add: callServer_settle_def truthy_def js_or_def)
  have held: "lastContent ?pg = ''X''"
    using ok by (simp add: act_settle_eq)
  have b1: "wm_btn_copy ?fresh = Some (clipboard_sign @ '' Copy'')"
    by simp
  have b2: "wm_btn_copy ?again = Some (check_mark @ '' Copied!'')"
    by simp
  note first = copy_writes_last_content [OF ok held b1, of Write page0 launch_btn]
  note second = copy_writes_last_content [OF ok held b2, of Write page0 launch_btn]
  let ?text = "copyContent_begin ?pg"
  have t: "timers ?again = [(2000, clipboard_sign @ '' Copy'')]"
    by simp
  from first have c1: "?text = ''X''"
    by blast
  from first have c2: "clipboard (snd (copyContent_settle ?fresh ?text True)) = ''X''"
    by blast
  from first have c3: "wm_btn_copy ((timer_fire ^^ Suc (length (timers ?fresh)))
      (snd (copyContent_settle ?fresh ?text True))) = wm_btn_copy ?fresh"
    by blast
  from second have "timers (snd (copyContent_settle ?again ?text True)) =
      timers ?again @ [(2000, clipboard_sign @ '' Copy'')]"
    by blast
  then have c4: "timers (snd (copyContent_settle ?again ?text True)) =
      [(2000, clipboard_sign @ '' Copy''), (2000, clipboard_sign @ '' Copy'')]"
    by (simp only: t append.simps)
  from second have c5: "wm_btn_copy ((timer_fire ^^ Suc (length (timers ?again)))
      (snd (copyContent_settle ?again ?text True))) = Some (clipboard_sign @ '' Copy'')"
    by blast
  from c1 c2 c3 c4 c5 show ?thesis
    by blast
qed

text \<open>
  C9. \<^verbatim>\<open>closeWriter\<close> changes nothing but the class list of the overlay, from which it
  removes \<^verbatim>\<open>active\<close>: the title, the body, \<^verbatim>\<open>lastContent\<close> and the requests handed to
  \<^verbatim>\<open>fetch\<close> are as before. A request in flight is not cancelled: when it settles after
  the close, the handler does to the page and the button what it would have done
  without the close.
\<close>

theorem closeWriter_only_hides:
  "snd (closeWriter pg) =
     pg\<lparr>writerOverlay := map_option (removeAll ''active'') (writerOverlay pg)\<rparr>
   \<and> (case writerOverlay (snd (closeWriter pg)) of
        None \<Rightarrow> True | Some cs \<Rightarrow> ''active'' \<notin> set cs)
   \<and> wmTitle (snd (closeWriter pg)) = wmTitle pg
   \<and> wmContent (snd (closeWriter pg)) = wmContent pg
   \<and> lastContent (snd (closeWriter pg)) = lastContent pg
   \<and> fetched (snd (closeWriter pg)) = fetched pg
   \<and> act_settle k (snd (closeWriter pg)) btn oc =
       (snd (closeWriter (fst (act_settle k pg btn oc))), snd (act_settle k pg btn oc))"
  by (simp add: closeWriter_def classList_remove_def act_settle_eq
        split: option.split sum.split)

text \<open>Closing the open modal of the sample page while a write request is in flight.\<close>

theorem closeWriter_only_hides_witness:
  "snd (closeWriter (page0\<lparr>writerOverlay := Some [''writer-overlay'', ''active'']\<rparr>)) = page0
   \<and> act_settle Write
         (snd (closeWriter (page0\<lparr>writerOverlay := Some [''writer-overlay'', ''active'']\<rparr>)))
         launch_btn (Parsed \<lparr>error = None, content = Some ''X''\<rparr>) =
       (snd (closeWriter (fst (act_settle Write
               (page0\<lparr>writerOverlay := Some [''writer-overlay'', ''active'']\<rparr>)
               launch_btn (Parsed \<lparr>error = None, content = Some ''X''\<rparr>)))),
        snd (act_settle Write (page0\<lparr>writerOverlay := Some [''writer-overlay'', ''active'']\<rparr>)
               launch_btn (Parsed \<lparr>error = None, content = Some ''X''\<rparr>)))"
proof -
  note th = closeWriter_only_hides
    [of "page0\<lparr>writerOverlay := Some [''writer-overlay'', ''active'']\<rparr>" Write launch_btn
        "Parsed \<lparr>error = None, content = Some ''X''\<rparr>"]
  from th have "snd (closeWriter (page0\<lparr>writerOverlay := Some [''writer-overlay'', ''active'']\<rparr>)) =
      page0"
    by (simp add: page0_def)
  with th show ?thesis
    by blast
qed

end
